theory Spec2Isabelle
  imports Complex_Main "HOL-Library.Signed_Division"
begin

section \<open>C values\<close>

text \<open>
  The playback engine of \<^verbatim>\<open>ffplay.c\<close> is embedded function by function.
  A C \<^verbatim>\<open>int\<close> or \<^verbatim>\<open>int64_t\<close> is an \<^typ>\<open>int\<close>.  The counters that only step by one
  (serials, packet and frame counts) are left unbounded: their overflow is undefined in C
  and needs 2^31 steps.  Where the source computes with values that a single input can
  push out of the 32-bit range (the byte size of a packet queue, the products and sums
  on a sample count, the positions in the audio buffer) the result is reduced to the
  range of a 32-bit \<^verbatim>\<open>int\<close> by \<open>wrap32\<close>, which is what the conversion from \<^verbatim>\<open>size_t\<close> and
  the two's-complement instructions give, and to the range of an \<^verbatim>\<open>unsigned int\<close> by
  \<open>uint32\<close>; the accumulated duration of a packet queue, an \<^verbatim>\<open>int64_t\<close>, is reduced by
  \<open>wrap64\<close>.  Integer division and remainder truncate towards zero (\<open>sdiv\<close>, \<open>smod\<close>).

  A C \<^verbatim>\<open>double\<close> is either NaN or an exact real number: comparisons with NaN are
  false and arithmetic on NaN gives NaN, as in IEEE 754; rounding and the two
  infinities are not part of the model.
\<close>

datatype double = NaN | Val real

fun isnan :: "double \<Rightarrow> bool" where
  "isnan NaN = True"
| "isnan (Val x) = False"

fun dadd :: "double \<Rightarrow> double \<Rightarrow> double" where
  "dadd (Val x) (Val y) = Val (x + y)"
| "dadd _ _ = NaN"

fun dsub :: "double \<Rightarrow> double \<Rightarrow> double" where
  "dsub (Val x) (Val y) = Val (x - y)"
| "dsub _ _ = NaN"

fun dmul :: "double \<Rightarrow> double \<Rightarrow> double" where
  "dmul (Val x) (Val y) = Val (x * y)"
| "dmul _ _ = NaN"

fun dneg :: "double \<Rightarrow> double" where
  "dneg (Val x) = Val (- x)"
| "dneg NaN = NaN"

fun fabs :: "double \<Rightarrow> double" where
  "fabs (Val x) = Val \<bar>x\<bar>"
| "fabs NaN = NaN"

fun dlt :: "double \<Rightarrow> double \<Rightarrow> bool" where
  "dlt (Val x) (Val y) = (x < y)"
| "dlt _ _ = False"

fun dle :: "double \<Rightarrow> double \<Rightarrow> bool" where
  "dle (Val x) (Val y) = (x \<le> y)"
| "dle _ _ = False"

definition dgt :: "double \<Rightarrow> double \<Rightarrow> bool" where
  "dgt a b = dlt b a"

definition dge :: "double \<Rightarrow> double \<Rightarrow> bool" where
  "dge a b = dle b a"

text \<open>
  The macros of \<^verbatim>\<open>libavutil/common.h\<close>:
  \<^verbatim>\<open>#define FFMAX(a,b) ((a) > (b) ? (a) : (b))\<close> and
  \<^verbatim>\<open>#define FFMIN(a,b) ((a) > (b) ? (b) : (a))\<close>.
\<close>

definition FFMAX :: "double \<Rightarrow> double \<Rightarrow> double" where
  "FFMAX a b = (if dgt a b then a else b)"

definition FFMIN :: "double \<Rightarrow> double \<Rightarrow> double" where
  "FFMIN a b = (if dgt a b then b else a)"

text \<open>
  \<^verbatim>\<open>av_clip(a, amin, amax)\<close> of \<^verbatim>\<open>libavutil/common.h\<close>:
  \<^verbatim>\<open>if (a < amin) return amin; else if (a > amax) return amax; else return a;\<close>
\<close>

definition av_clip :: "int \<Rightarrow> int \<Rightarrow> int \<Rightarrow> int" where
  "av_clip a amin amax = (if a < amin then amin else if a > amax then amax else a)"

text \<open>
  The value of an integer in a 32-bit \<^verbatim>\<open>int\<close>, in an \<^verbatim>\<open>unsigned int\<close> and in an
  \<^verbatim>\<open>int64_t\<close>.
\<close>

definition wrap32 :: "int \<Rightarrow> int" where
  "wrap32 x = (x + 2147483648) mod 4294967296 - 2147483648"


definition wrap64 :: "int \<Rightarrow> int" where
  "wrap64 x = (x + 9223372036854775808) mod 18446744073709551616 - 9223372036854775808"

text \<open>
  The cast \<^verbatim>\<open>(int)x\<close> of a double drops the fractional part.  When the result does not
  fit a 32-bit \<^verbatim>\<open>int\<close> the cast is undefined in C; \<open>ub\<close> is the value that the platform
  then produces (\<^verbatim>\<open>INT_MIN\<close> on x86).
\<close>

definition int_of_real :: "real \<Rightarrow> int" where
  "int_of_real x = (if 0 \<le> x then \<lfloor>x\<rfloor> else \<lceil>x\<rceil>)"

definition int_cast :: "int \<Rightarrow> real \<Rightarrow> int" where
  "int_cast ub x =
     (if - 2147483648 \<le> int_of_real x \<and> int_of_real x < 2147483648 then int_of_real x
      else ub)"

section \<open>Packet queue\<close>

text \<open>
  An \<^verbatim>\<open>AVPacket\<close> keeps the fields the queue reads.  \<open>pkt_data\<close> is the address in
  \<^verbatim>\<open>data\<close>, 0 for \<^verbatim>\<open>NULL\<close>.  The static \<^verbatim>\<open>flush_pkt\<close> is zero-initialised, goes through
  \<^verbatim>\<open>av_init_packet\<close>, and \<^verbatim>\<open>main\<close> stores its own address in its \<^verbatim>\<open>data\<close> field.
\<close>

record AVPacket =
  pkt_data :: nat
  pkt_size :: int
  pkt_duration :: int
  pkt_stream_index :: int

definition flush_pkt_addr :: nat where
  "flush_pkt_addr = 1"

definition flush_pkt :: AVPacket where
  "flush_pkt = \<lparr>pkt_data = flush_pkt_addr, pkt_size = 0, pkt_duration = 0, pkt_stream_index = 0\<rparr>"

text \<open>
  The argument \<^verbatim>\<open>AVPacket *pkt\<close> of the put functions is compared with \<^verbatim>\<open>&flush_pkt\<close>,
  so the model keeps which object the pointer designates.
\<close>

datatype pkt_ptr = Flush_pkt | Pkt AVPacket

fun deref_pkt :: "pkt_ptr \<Rightarrow> AVPacket" where
  "deref_pkt Flush_pkt = flush_pkt"
| "deref_pkt (Pkt p) = p"

record MyAVPacketList =
  lpkt :: AVPacket
  lserial :: int

text \<open>
  The linked list from \<^verbatim>\<open>first_pkt\<close> to \<^verbatim>\<open>last_pkt\<close> is the list \<open>entries\<close>, head
  first.  The mutex and the condition variable have no content.
\<close>

record PacketQueue =
  q_entries :: "MyAVPacketList list"
  q_nb_packets :: int
  q_size :: int
  q_duration :: int
  q_abort_request :: int
  q_serial :: int

text \<open>
  \<^verbatim>\<open>packet_queue_put_private\<close>.  \<open>sz\<close> is \<^verbatim>\<open>sizeof(MyAVPacketList)\<close>, which depends on
  the platform; \<open>alloc_ok\<close> tells whether \<^verbatim>\<open>av_malloc\<close> returned a block.  The result
  is the queue and the return value.  \<^verbatim>\<open>q->size += pkt1->pkt.size + sizeof(*pkt1)\<close> is
  computed in \<^verbatim>\<open>size_t\<close> and converted back to the \<^verbatim>\<open>int\<close> field; \<^verbatim>\<open>q->duration\<close> is an
  \<^verbatim>\<open>int64_t\<close>.
\<close>

definition packet_queue_put_private ::
  "int \<Rightarrow> bool \<Rightarrow> PacketQueue \<Rightarrow> pkt_ptr \<Rightarrow> PacketQueue \<times> int" where
  "packet_queue_put_private sz alloc_ok q pkt =
     (if q_abort_request q \<noteq> 0 then (q, -1)
      else if \<not> alloc_ok then (q, -1)
      else
        let q1 = (if pkt = Flush_pkt then q\<lparr>q_serial := q_serial q + 1\<rparr> else q);
            pkt1 = \<lparr>lpkt = deref_pkt pkt, lserial = q_serial q1\<rparr>
        in (q1\<lparr>q_entries := q_entries q1 @ [pkt1],
                q_nb_packets := q_nb_packets q1 + 1,
                q_size := wrap32 (q_size q1 + (pkt_size (lpkt pkt1) + sz)),
                q_duration := wrap64 (q_duration q1 + pkt_duration (lpkt pkt1))\<rparr>, 0))"

text \<open>
  \<^verbatim>\<open>packet_queue_put\<close> takes the lock around \<^verbatim>\<open>packet_queue_put_private\<close>; on failure it
  releases the caller's packet, which has no counterpart in the queue.
\<close>

definition packet_queue_put ::
  "int \<Rightarrow> bool \<Rightarrow> PacketQueue \<Rightarrow> pkt_ptr \<Rightarrow> PacketQueue \<times> int" where
  "packet_queue_put sz alloc_ok q pkt = packet_queue_put_private sz alloc_ok q pkt"

definition packet_queue_put_nullpacket ::
  "int \<Rightarrow> bool \<Rightarrow> PacketQueue \<Rightarrow> int \<Rightarrow> PacketQueue \<times> int" where
  "packet_queue_put_nullpacket sz alloc_ok q stream_index =
     packet_queue_put sz alloc_ok q
       (Pkt \<lparr>pkt_data = 0, pkt_size = 0, pkt_duration = 0, pkt_stream_index = stream_index\<rparr>)"

text \<open>
  \<^verbatim>\<open>packet_queue_init\<close>: \<^verbatim>\<open>memset\<close> to zero, then the mutex and the condition variable
  are created; either creation may fail with \<^verbatim>\<open>AVERROR(ENOMEM)\<close>, which is \<open>-12\<close>.
\<close>

definition zero_queue :: PacketQueue where
  "zero_queue = \<lparr>q_entries = [], q_nb_packets = 0, q_size = 0, q_duration = 0,
                  q_abort_request = 0, q_serial = 0\<rparr>"

definition packet_queue_init :: "bool \<Rightarrow> bool \<Rightarrow> PacketQueue \<times> int" where
  "packet_queue_init mutex_ok cond_ok =
     (if \<not> mutex_ok then (zero_queue, -12)
      else if \<not> cond_ok then (zero_queue, -12)
      else (zero_queue\<lparr>q_abort_request := 1\<rparr>, 0))"

definition packet_queue_flush :: "PacketQueue \<Rightarrow> PacketQueue" where
  "packet_queue_flush q =
     q\<lparr>q_entries := [], q_nb_packets := 0, q_size := 0, q_duration := 0\<rparr>"

definition packet_queue_start :: "int \<Rightarrow> bool \<Rightarrow> PacketQueue \<Rightarrow> PacketQueue" where
  "packet_queue_start sz alloc_ok q =
     fst (packet_queue_put_private sz alloc_ok (q\<lparr>q_abort_request := 0\<rparr>) Flush_pkt)"

text \<open>
  \<^verbatim>\<open>packet_queue_get\<close> returns \<open>-1\<close> if aborted, \<open>0\<close> if there is no packet and \<open>1\<close> with
  the packet and its serial.  On an empty queue with \<^verbatim>\<open>block\<close> set the caller sleeps in
  \<^verbatim>\<open>SDL_CondWait\<close> and tries again once woken: one pass of the loop that ends there
  is the outcome \<open>Get_wait\<close>, with the queue as it was.
\<close>

datatype get_result = Get_aborted | Get_empty | Get_packet AVPacket int | Get_wait

fun get_ret :: "get_result \<Rightarrow> int option" where
  "get_ret Get_aborted = Some (-1)"
| "get_ret Get_empty = Some 0"
| "get_ret (Get_packet p s) = Some 1"
| "get_ret Get_wait = None"

definition packet_queue_get :: "int \<Rightarrow> PacketQueue \<Rightarrow> int \<Rightarrow> PacketQueue \<times> get_result" where
  "packet_queue_get sz q block =
     (if q_abort_request q \<noteq> 0 then (q, Get_aborted)
      else case q_entries q of
        pkt1 # rest \<Rightarrow>
          (q\<lparr>q_entries := rest,
             q_nb_packets := q_nb_packets q - 1,
             q_size := wrap32 (q_size q - (pkt_size (lpkt pkt1) + sz)),
             q_duration := wrap64 (q_duration q - pkt_duration (lpkt pkt1))\<rparr>,
           Get_packet (lpkt pkt1) (lserial pkt1))
      | [] \<Rightarrow> if block = 0 then (q, Get_empty) else (q, Get_wait))"

text \<open>
  Modelled from the spec: \<^verbatim>\<open>packet_queue_abort\<close> is not among the functions of
  \<^verbatim>\<open>ffplay.c\<close>; the specification describes it as
  ``\<^verbatim>\<open>abort()\<close>: sets \<^verbatim>\<open>abort_request\<close>, wakes all waiters''.
\<close>

definition packet_queue_abort :: "PacketQueue \<Rightarrow> PacketQueue" where
  "packet_queue_abort q = q\<lparr>q_abort_request := 1\<rparr>"

subsection \<open>Sequences of queue operations\<close>

datatype pq_op =
    Op_put bool pkt_ptr
  | Op_put_null bool int
  | Op_get int
  | Op_flush
  | Op_start bool
  | Op_abort

datatype pq_ret = Ret_int int | Ret_get get_result | Ret_void

fun pq_step :: "int \<Rightarrow> PacketQueue \<Rightarrow> pq_op \<Rightarrow> PacketQueue \<times> pq_ret" where
  "pq_step sz q (Op_put a p) = apsnd Ret_int (packet_queue_put sz a q p)"
| "pq_step sz q (Op_put_null a i) = apsnd Ret_int (packet_queue_put_nullpacket sz a q i)"
| "pq_step sz q (Op_get b) = apsnd Ret_get (packet_queue_get sz q b)"
| "pq_step sz q Op_flush = (packet_queue_flush q, Ret_void)"
| "pq_step sz q (Op_start a) = (packet_queue_start sz a q, Ret_void)"
| "pq_step sz q Op_abort = (packet_queue_abort q, Ret_void)"

fun pq_run :: "int \<Rightarrow> PacketQueue \<Rightarrow> pq_op list \<Rightarrow> PacketQueue" where
  "pq_run sz q [] = q"
| "pq_run sz q (op # ops) = pq_run sz (fst (pq_step sz q op)) ops"

fun pq_rets :: "int \<Rightarrow> PacketQueue \<Rightarrow> pq_op list \<Rightarrow> pq_ret list" where
  "pq_rets sz q [] = []"
| "pq_rets sz q (op # ops) = snd (pq_step sz q op) # pq_rets sz (fst (pq_step sz q op)) ops"

text \<open>
  An operation enqueues a flush marker when it appends an entry for \<^verbatim>\<open>&flush_pkt\<close>:
  a successful put of that packet, or a start whose allocation succeeds.
\<close>

fun enqueues_flush :: "int \<Rightarrow> PacketQueue \<Rightarrow> pq_op \<Rightarrow> bool" where
  "enqueues_flush sz q (Op_put a p) = (p = Flush_pkt \<and> snd (packet_queue_put sz a q p) = 0)"
| "enqueues_flush sz q (Op_start a) =
     (snd (packet_queue_put_private sz a (q\<lparr>q_abort_request := 0\<rparr>) Flush_pkt) = 0)"
| "enqueues_flush sz q _ = False"

fun flush_markers_enqueued :: "int \<Rightarrow> PacketQueue \<Rightarrow> pq_op list \<Rightarrow> nat" where
  "flush_markers_enqueued sz q [] = 0"
| "flush_markers_enqueued sz q (op # ops) =
     (if enqueues_flush sz q op then 1 else 0)
     + flush_markers_enqueued sz (fst (pq_step sz q op)) ops"

text \<open>
  The accounting relation between the counters and the entries: \<open>size\<close> is the sum of
  the payload sizes and per-entry overheads, reduced to the range of the \<^verbatim>\<open>int\<close> field,
  and \<open>duration\<close> the sum of the durations, reduced to the range of an \<^verbatim>\<open>int64_t\<close>.
\<close>

definition accounted :: "int \<Rightarrow> PacketQueue \<Rightarrow> bool" where
  "accounted sz q \<longleftrightarrow>
     q_size q = wrap32 (\<Sum>e\<leftarrow>q_entries q. pkt_size (lpkt e) + sz) \<and>
     q_nb_packets q = int (length (q_entries q)) \<and>
     q_duration q = wrap64 (\<Sum>e\<leftarrow>q_entries q. pkt_duration (lpkt e))"

text \<open>The return values of the operations on a queue that stays aborted.\<close>

fun is_start :: "pq_op \<Rightarrow> bool" where
  "is_start (Op_start a) = True"
| "is_start _ = False"

fun aborted_ret :: "pq_op \<Rightarrow> pq_ret" where
  "aborted_ret (Op_put a p) = Ret_int (-1)"
| "aborted_ret (Op_put_null a i) = Ret_int (-1)"
| "aborted_ret (Op_get b) = Ret_get Get_aborted"
| "aborted_ret _ = Ret_void"

section \<open>Streams, clocks and frame queues\<close>

text \<open>
  Of an \<^verbatim>\<open>AVStream\<close> the engine reads the disposition flags and the time base.
  \<^verbatim>\<open>av_q2d(a)\<close> of \<^verbatim>\<open>libavutil/rational.h\<close> is \<^verbatim>\<open>a.num / (double) a.den\<close>; a stream's
  time base has a non-zero denominator.
\<close>

record AVRational =
  num :: int
  den :: int

record AVStream =
  disposition :: int
  time_base :: AVRational



text \<open>
  Pointers into the engine instance.  A clock holds \<^verbatim>\<open>int *queue_serial\<close>; the three
  clocks of a \<^verbatim>\<open>VideoState\<close> are initialised with \<^verbatim>\<open>&is->videoq.serial\<close>,
  \<^verbatim>\<open>&is->audioq.serial\<close> and \<^verbatim>\<open>&is->extclk.serial\<close> (the external clock points at its
  own serial).  A frame queue holds \<^verbatim>\<open>PacketQueue *pktq\<close>.
\<close>

datatype int_ptr =
    Ptr_videoq_serial | Ptr_audioq_serial | Ptr_subtitleq_serial
  | Ptr_vidclk_serial | Ptr_audclk_serial | Ptr_extclk_serial

datatype clock_ptr = Ptr_audclk | Ptr_vidclk | Ptr_extclk

datatype pktq_ptr = Ptr_videoq | Ptr_audioq | Ptr_subtitleq

record Clock =
  c_pts :: double
  c_pts_drift :: double
  c_last_updated :: double
  c_speed :: double
  c_serial :: int
  c_paused :: int
  c_queue_serial :: int_ptr

text \<open>
  A \<^verbatim>\<open>Frame\<close>: \<open>f_frame\<close> identifies the decoded payload (0 once released), \<open>f_bmp\<close> is
  the texture handle (0 for \<^verbatim>\<open>NULL\<close>), the two display times are those of \<^verbatim>\<open>sub\<close>,
  the sample count and the sample rate those of the \<^verbatim>\<open>AVFrame\<close>.
\<close>

record Frame =
  f_frame :: nat
  f_sub_start_display_time :: nat
  f_sub_end_display_time :: nat
  f_serial :: int
  f_pts :: double
  f_duration :: double
  f_pos :: int
  f_bmp :: nat
  f_uploaded :: int
  f_nb_samples :: int
  f_sample_rate :: int

text \<open>
  The array \<^verbatim>\<open>queue[FRAME_QUEUE_SIZE]\<close> is a list; \<^verbatim>\<open>queue[i]\<close> is \<open>fq_queue f ! nat i\<close>.
  In C an index outside the array, and \<^verbatim>\<open>%\<close> by a zero \<^verbatim>\<open>max_size\<close>, are undefined.
\<close>

record FrameQueue =
  fq_queue :: "Frame list"
  fq_rindex :: int
  fq_windex :: int
  fq_size :: int
  fq_max_size :: int
  fq_keep_last :: int
  fq_rindex_shown :: int
  fq_pktq :: pktq_ptr

abbreviation (input) AV_SYNC_AUDIO_MASTER :: int where "AV_SYNC_AUDIO_MASTER \<equiv> 0"
abbreviation (input) AV_SYNC_VIDEO_MASTER :: int where "AV_SYNC_VIDEO_MASTER \<equiv> 1"
abbreviation (input) AV_SYNC_EXTERNAL_CLOCK :: int where "AV_SYNC_EXTERNAL_CLOCK \<equiv> 2"

abbreviation (input) SHOW_MODE_NONE :: int where "SHOW_MODE_NONE \<equiv> -1"

abbreviation (input) AV_SYNC_THRESHOLD_MIN :: double where "AV_SYNC_THRESHOLD_MIN \<equiv> Val 0.04"
abbreviation (input) AV_SYNC_THRESHOLD_MAX :: double where "AV_SYNC_THRESHOLD_MAX \<equiv> Val 0.1"
abbreviation (input) AV_SYNC_FRAMEDUP_THRESHOLD :: double where "AV_SYNC_FRAMEDUP_THRESHOLD \<equiv> Val 0.1"
abbreviation (input) AV_NOSYNC_THRESHOLD :: double where "AV_NOSYNC_THRESHOLD \<equiv> Val 10.0"
abbreviation (input) SAMPLE_CORRECTION_PERCENT_MAX :: int where "SAMPLE_CORRECTION_PERCENT_MAX \<equiv> 10"
abbreviation (input) AUDIO_DIFF_AVG_NB :: int where "AUDIO_DIFF_AVG_NB \<equiv> 20"

text \<open>
  What reaches the outside during a refresh, in order: the arguments of each
  \<^verbatim>\<open>update_video_pts\<close> call, the picture that \<^verbatim>\<open>video_image_display\<close> hands to
  \<^verbatim>\<open>SDL_RenderCopy\<close>, a call of \<^verbatim>\<open>video_audio_display\<close>.
\<close>

datatype event =
    Ev_update_video_pts double int
  | Ev_render_picture Frame
  | Ev_audio_display

text \<open>
  The fields of \<^verbatim>\<open>VideoState\<close> that the synchronisation code reads or writes.
  \<open>audio_src_freq\<close> is \<^verbatim>\<open>audio_src.freq\<close>, \<open>audio_tgt_frame_size\<close> and
  \<open>audio_tgt_bytes_per_sec\<close> are \<^verbatim>\<open>audio_tgt.frame_size\<close> and \<^verbatim>\<open>audio_tgt.bytes_per_sec\<close>
  (positive once \<^verbatim>\<open>audio_open\<close> has run); \<open>audio_buf_size\<close> is an \<^verbatim>\<open>unsigned int\<close>, a
  value from 0 to 2^32 - 1.  A stream pointer is \<open>None\<close> for \<^verbatim>\<open>NULL\<close>.
  \<open>events\<close> is not a field of the C structure: it records the effects listed above.
\<close>

record VideoState =
  abort_request :: int
  force_refresh :: int
  audclk :: Clock
  vidclk :: Clock
  extclk :: Clock
  pictq :: FrameQueue
  subpq :: FrameQueue
  sampq :: FrameQueue
  audio_stream :: int
  av_sync_type :: int
  audio_clock :: double
  audio_clock_serial :: int
  audio_diff_cum :: double
  audio_diff_avg_coef :: double
  audio_diff_threshold :: double
  audio_diff_avg_count :: int
  audio_st :: "AVStream option"
  audioq :: PacketQueue
  audio_src_freq :: int
  audio_hw_buf_size :: int
  audio_buf_size :: int
  audio_buf_index :: int
  audio_write_buf_size :: int
  audio_tgt_frame_size :: int
  audio_tgt_bytes_per_sec :: int
  frame_drops_late :: int
  show_mode :: int
  last_vis_time :: double
  subtitle_stream :: int
  subtitle_st :: "AVStream option"
  subtitleq :: PacketQueue
  frame_timer :: double
  video_stream :: int
  video_st :: "AVStream option"
  videoq :: PacketQueue
  max_frame_duration :: double
  events :: "event list"

fun the_clock :: "VideoState \<Rightarrow> clock_ptr \<Rightarrow> Clock" where
  "the_clock is Ptr_audclk = audclk is"
| "the_clock is Ptr_vidclk = vidclk is"
| "the_clock is Ptr_extclk = extclk is"

fun store_clock :: "VideoState \<Rightarrow> clock_ptr \<Rightarrow> Clock \<Rightarrow> VideoState" where
  "store_clock is Ptr_audclk c = is\<lparr>audclk := c\<rparr>"
| "store_clock is Ptr_vidclk c = is\<lparr>vidclk := c\<rparr>"
| "store_clock is Ptr_extclk c = is\<lparr>extclk := c\<rparr>"


fun deref_int :: "VideoState \<Rightarrow> int_ptr \<Rightarrow> int" where
  "deref_int is Ptr_videoq_serial = q_serial (videoq is)"
| "deref_int is Ptr_audioq_serial = q_serial (audioq is)"
| "deref_int is Ptr_subtitleq_serial = q_serial (subtitleq is)"
| "deref_int is Ptr_vidclk_serial = c_serial (vidclk is)"
| "deref_int is Ptr_audclk_serial = c_serial (audclk is)"
| "deref_int is Ptr_extclk_serial = c_serial (extclk is)"

subsection \<open>Frame queue operations\<close>









subsection \<open>Clocks\<close>

text \<open>
  Every function that calls \<^verbatim>\<open>av_gettime_relative()\<close> takes, in the order of the calls,
  the values \<^verbatim>\<open>av_gettime_relative() / 1000000.0\<close> that the calls give (a call that a
  branch skips leaves its parameter unused).
\<close>

definition get_clock :: "VideoState \<Rightarrow> clock_ptr \<Rightarrow> real \<Rightarrow> double" where
  "get_clock is cp time =
     (let c = the_clock is cp in
      if deref_int is (c_queue_serial c) \<noteq> c_serial c then NaN
      else if c_paused c \<noteq> 0 then c_pts c
      else dsub (dadd (c_pts_drift c) (Val time))
                (dmul (dsub (Val time) (c_last_updated c)) (dsub (Val 1.0) (c_speed c))))"

definition set_clock_at :: "VideoState \<Rightarrow> clock_ptr \<Rightarrow> double \<Rightarrow> int \<Rightarrow> double \<Rightarrow> VideoState" where
  "set_clock_at is cp pts serial time =
     store_clock is cp ((the_clock is cp)
       \<lparr>c_pts := pts, c_last_updated := time, c_pts_drift := dsub pts time, c_serial := serial\<rparr>)"

definition set_clock :: "VideoState \<Rightarrow> clock_ptr \<Rightarrow> double \<Rightarrow> int \<Rightarrow> real \<Rightarrow> VideoState" where
  "set_clock is cp pts serial time = set_clock_at is cp pts serial (Val time)"

definition set_clock_speed :: "VideoState \<Rightarrow> clock_ptr \<Rightarrow> double \<Rightarrow> real \<Rightarrow> real \<Rightarrow> VideoState" where
  "set_clock_speed is cp speed t1 t2 =
     (let is1 = set_clock is cp (get_clock is cp t1) (c_serial (the_clock is cp)) t2
      in store_clock is1 cp ((the_clock is1 cp)\<lparr>c_speed := speed\<rparr>))"

definition init_clock :: "VideoState \<Rightarrow> clock_ptr \<Rightarrow> int_ptr \<Rightarrow> real \<Rightarrow> VideoState" where
  "init_clock is cp queue_serial time =
     set_clock
       (store_clock is cp
          ((the_clock is cp)\<lparr>c_speed := Val 1.0, c_paused := 0, c_queue_serial := queue_serial\<rparr>))
       cp NaN (-1) time"


definition get_master_sync_type :: "VideoState \<Rightarrow> int" where
  "get_master_sync_type is =
     (if av_sync_type is = AV_SYNC_VIDEO_MASTER then
        (if video_st is \<noteq> None then AV_SYNC_VIDEO_MASTER else AV_SYNC_AUDIO_MASTER)
      else if av_sync_type is = AV_SYNC_AUDIO_MASTER then
        (if audio_st is \<noteq> None then AV_SYNC_AUDIO_MASTER else AV_SYNC_EXTERNAL_CLOCK)
      else AV_SYNC_EXTERNAL_CLOCK)"

definition get_master_clock :: "VideoState \<Rightarrow> real \<Rightarrow> double" where
  "get_master_clock is time =
     (if get_master_sync_type is = AV_SYNC_VIDEO_MASTER then get_clock is Ptr_vidclk time
      else if get_master_sync_type is = AV_SYNC_AUDIO_MASTER then get_clock is Ptr_audclk time
      else get_clock is Ptr_extclk time)"

subsection \<open>Video scheduling\<close>

definition compute_target_delay :: "double \<Rightarrow> VideoState \<Rightarrow> real \<Rightarrow> real \<Rightarrow> double" where
  "compute_target_delay delay is t1 t2 =
     (if get_master_sync_type is \<noteq> AV_SYNC_VIDEO_MASTER then
        let diff = dsub (get_clock is Ptr_vidclk t1) (get_master_clock is t2);
            sync_threshold = FFMAX AV_SYNC_THRESHOLD_MIN (FFMIN AV_SYNC_THRESHOLD_MAX delay)
        in if \<not> isnan diff \<and> dlt (fabs diff) (max_frame_duration is) then
             (if dle diff (dneg sync_threshold) then FFMAX (Val 0) (dadd delay diff)
              else if dge diff sync_threshold \<and> dgt delay AV_SYNC_FRAMEDUP_THRESHOLD
                then dadd delay diff
              else if dge diff sync_threshold then dmul (Val 2) delay
              else delay)
           else delay
      else delay)"

definition vp_duration :: "VideoState \<Rightarrow> Frame \<Rightarrow> Frame \<Rightarrow> double" where
  "vp_duration is vp nextvp =
     (if f_serial vp = f_serial nextvp then
        let duration = dsub (f_pts nextvp) (f_pts vp)
        in if isnan duration \<or> dle duration (Val 0) \<or> dgt duration (max_frame_duration is)
           then f_duration vp
           else duration
      else Val 0.0)"


subsection \<open>Audio compensation\<close>

text \<open>
  \<^verbatim>\<open>synchronize_audio\<close>.  The sum \<^verbatim>\<open>nb_samples + (int)(diff * freq)\<close> and the products
  \<^verbatim>\<open>nb_samples * (100 - 10)\<close> and \<^verbatim>\<open>nb_samples * (100 + 10)\<close> are 32-bit \<^verbatim>\<open>int\<close> operations.
  The cast is applied only after \<^verbatim>\<open>!isnan(diff)\<close>; \<open>ub\<close> is what it produces out of range.
\<close>

fun int_of_double :: "int \<Rightarrow> double \<Rightarrow> int" where
  "int_of_double ub (Val x) = int_cast ub x"
| "int_of_double ub NaN = ub"

definition synchronize_audio ::
  "int \<Rightarrow> VideoState \<Rightarrow> int \<Rightarrow> real \<Rightarrow> real \<Rightarrow> VideoState \<times> int" where
  "synchronize_audio ub is nb_samples t1 t2 =
     (if get_master_sync_type is \<noteq> AV_SYNC_AUDIO_MASTER then
        let diff = dsub (get_clock is Ptr_audclk t1) (get_master_clock is t2)
        in if \<not> isnan diff \<and> dlt (fabs diff) AV_NOSYNC_THRESHOLD then
             let is1 = is\<lparr>audio_diff_cum :=
                           dadd diff (dmul (audio_diff_avg_coef is) (audio_diff_cum is))\<rparr>
             in if audio_diff_avg_count is1 < AUDIO_DIFF_AVG_NB then
                  (is1\<lparr>audio_diff_avg_count := audio_diff_avg_count is1 + 1\<rparr>, nb_samples)
                else
                  let avg_diff = dmul (audio_diff_cum is1)
                                      (dsub (Val 1.0) (audio_diff_avg_coef is1))
                  in if dge (fabs avg_diff) (audio_diff_threshold is1) then
                       let wanted_nb_samples =
                             wrap32 (nb_samples
                               + int_of_double ub
                                   (dmul diff (Val (real_of_int (audio_src_freq is1)))));
                           min_nb_samples =
                             wrap32 (nb_samples * (100 - SAMPLE_CORRECTION_PERCENT_MAX)) sdiv 100;
                           max_nb_samples =
                             wrap32 (nb_samples * (100 + SAMPLE_CORRECTION_PERCENT_MAX)) sdiv 100
                       in (is1, av_clip wanted_nb_samples min_nb_samples max_nb_samples)
                     else (is1, nb_samples)
           else (is\<lparr>audio_diff_avg_count := 0, audio_diff_cum := Val 0\<rparr>, nb_samples)
      else (is, nb_samples))"

subsection \<open>Reader backpressure\<close>




subsection \<open>Opening an engine instance\<close>

text \<open>
  \<^verbatim>\<open>frame_queue_init\<close> and the state that \<^verbatim>\<open>stream_open\<close> builds when every allocation
  succeeds: the structure comes zeroed from \<^verbatim>\<open>av_mallocz\<close>, the three frame queues, the
  three packet queues and the three clocks are initialised, and \<^verbatim>\<open>read_thread\<close> begins
  by setting the three stream indices to \<open>-1\<close>.  \<open>sync\<close> is the file-scope
  \<^verbatim>\<open>av_sync_type\<close>.
\<close>

definition zero_frame :: Frame where
  "zero_frame = \<lparr>f_frame = 0, f_sub_start_display_time = 0, f_sub_end_display_time = 0,
                  f_serial = 0, f_pts = Val 0, f_duration = Val 0, f_pos = 0, f_bmp = 0,
                  f_uploaded = 0, f_nb_samples = 0, f_sample_rate = 0\<rparr>"

abbreviation (input) FRAME_QUEUE_SIZE :: int where "FRAME_QUEUE_SIZE \<equiv> 16"

definition frame_queue_init :: "pktq_ptr \<Rightarrow> int \<Rightarrow> int \<Rightarrow> FrameQueue" where
  "frame_queue_init pktq max_size keep_last =
     \<lparr>fq_queue = replicate (nat FRAME_QUEUE_SIZE) zero_frame, fq_rindex = 0, fq_windex = 0,
      fq_size = 0, fq_max_size = (if max_size > FRAME_QUEUE_SIZE then FRAME_QUEUE_SIZE else max_size),
      fq_keep_last = (if keep_last \<noteq> 0 then 1 else 0), fq_rindex_shown = 0, fq_pktq = pktq\<rparr>"

definition zero_clock :: "int_ptr \<Rightarrow> Clock" where
  "zero_clock p = \<lparr>c_pts = Val 0, c_pts_drift = Val 0, c_last_updated = Val 0, c_speed = Val 0,
                    c_serial = 0, c_paused = 0, c_queue_serial = p\<rparr>"

definition stream_open :: "int \<Rightarrow> real \<Rightarrow> real \<Rightarrow> real \<Rightarrow> VideoState" where
  "stream_open sync t1 t2 t3 =
     (let is0 = \<lparr>abort_request = 0, force_refresh = 0,
                 audclk = zero_clock Ptr_audioq_serial,
                 vidclk = zero_clock Ptr_videoq_serial,
                 extclk = zero_clock Ptr_extclk_serial,
                 pictq = frame_queue_init Ptr_videoq 3 1,
                 subpq = frame_queue_init Ptr_subtitleq 16 0,
                 sampq = frame_queue_init Ptr_audioq 9 1,
                 audio_stream = -1, av_sync_type = 0,
                 audio_clock = Val 0, audio_clock_serial = 0,
                 audio_diff_cum = Val 0, audio_diff_avg_coef = Val 0,
                 audio_diff_threshold = Val 0, audio_diff_avg_count = 0,
                 audio_st = None, audioq = fst (packet_queue_init True True),
                 audio_src_freq = 0, audio_hw_buf_size = 0, audio_buf_size = 0,
                 audio_buf_index = 0, audio_write_buf_size = 0, audio_tgt_frame_size = 0,
                 audio_tgt_bytes_per_sec = 0, frame_drops_late = 0, show_mode = 0,
                 last_vis_time = Val 0, subtitle_stream = -1, subtitle_st = None,
                 subtitleq = fst (packet_queue_init True True), frame_timer = Val 0,
                 video_stream = -1, video_st = None,
                 videoq = fst (packet_queue_init True True),
                 max_frame_duration = Val 0, events = []\<rparr>;
          is1 = init_clock is0 Ptr_vidclk Ptr_videoq_serial t1;
          is2 = init_clock is1 Ptr_audclk Ptr_audioq_serial t2;
          is3 = init_clock is2 Ptr_extclk Ptr_extclk_serial t3
      in is3\<lparr>audio_clock_serial := -1, av_sync_type := sync\<rparr>)"

subsection \<open>The statements of the specification\<close>

text \<open>
  The delay rule as the specification writes it, on real numbers: \<open>d\<close> is the delay,
  \<open>x\<close> the difference between the video clock and the master clock, \<open>m\<close> the maximal
  frame duration.
\<close>

definition spec_target_delay :: "real \<Rightarrow> real \<Rightarrow> real \<Rightarrow> real" where
  "spec_target_delay d x m =
     (let sync_threshold = max 0.04 (min 0.1 d)
      in if \<bar>x\<bar> < m then
           (if x \<le> - sync_threshold then max 0 (d + x)
            else if x \<ge> sync_threshold \<and> d > 0.1 then d + x
            else if x \<ge> sync_threshold \<and> d \<le> 0.1 then 2 * d
            else d)
         else d)"




subsection \<open>Display\<close>





subsection \<open>Video refresh\<close>











subsection \<open>Audio decoding\<close>
















subsection \<open>Example states\<close>


text \<open>
  An audio session synchronised to the external clock: the audio clock was set to 0 and
  the external clock to 1 at time 0, so the audio clock is one second behind; twenty
  differences have been averaged already.
\<close>

definition state_audio_behind :: VideoState where
  "state_audio_behind =
     (let is0 = (stream_open 2 0 0 0)
        \<lparr>audio_stream := 0,
         audio_st := Some \<lparr>disposition = 0, time_base = \<lparr>num = 1, den = 44100\<rparr>\<rparr>,
         audioq := packet_queue_start 104 True (audioq (stream_open 2 0 0 0)),
         audio_src_freq := 44100,
         audio_diff_avg_coef := Val 0.794,
         audio_diff_threshold := Val 0.04,
         audio_diff_avg_count := 20,
         audio_diff_cum := Val (-4)\<rparr>;
       is1 = set_clock is0 Ptr_audclk (Val 0) 1 0
     in set_clock is1 Ptr_extclk (Val 1) 0 0)"










section \<open>Properties of the packet queue\<close>

lemma put_private_serial:
  "q_serial (fst (packet_queue_put_private sz a q p)) =
     q_serial q + (if p = Flush_pkt \<and> snd (packet_queue_put_private sz a q p) = 0 then 1 else 0)"
  by (simp add: packet_queue_put_private_def Let_def)

lemma get_serial: "q_serial (fst (packet_queue_get sz q b)) = q_serial q"
  by (simp add: packet_queue_get_def split: list.split)

lemma pq_step_serial:
  "q_serial (fst (pq_step sz q op)) = q_serial q + (if enqueues_flush sz q op then 1 else 0)"
proof (cases op)
  case (Op_put a p)
  then show ?thesis
    using put_private_serial [of sz a q p] by (simp add: packet_queue_put_def)
next
  case (Op_put_null a i)
  then show ?thesis
    using put_private_serial [of sz a q
        "Pkt \<lparr>pkt_data = 0, pkt_size = 0, pkt_duration = 0, pkt_stream_index = i\<rparr>"]
    by (simp add: packet_queue_put_def packet_queue_put_nullpacket_def)
next
  case (Op_get b)
  then show ?thesis using get_serial [of sz q b] by simp
next
  case Op_flush
  then show ?thesis by (simp add: packet_queue_flush_def)
next
  case (Op_start a)
  then show ?thesis
    using put_private_serial [of sz a "q\<lparr>q_abort_request := 0\<rparr>" Flush_pkt]
    by (simp add: packet_queue_start_def)
next
  case Op_abort
  then show ?thesis by (simp add: packet_queue_abort_def)
qed

lemma pq_run_serial:
  "q_serial (pq_run sz q ops) = q_serial q + int (flush_markers_enqueued sz q ops)"
proof (induction ops arbitrary: q)
  case Nil
  show ?case by simp
next
  case (Cons op ops)
  show ?case
    using Cons.IH [of "fst (pq_step sz q op)"] pq_step_serial [of sz q op] by simp
qed

text \<open>
  C2.  Over any sequence of put, put-null, get, flush, start and abort operations the
  serial of a packet queue grows by exactly the number of flush markers that were
  enqueued, so it never decreases; a single operation adds one when it enqueues a flush
  marker and nothing otherwise; flush empties the queue and keeps the serial.
\<close>

theorem serial_monotonicity:
  "q_serial (pq_run sz q ops) = q_serial q + int (flush_markers_enqueued sz q ops)
   \<and> q_serial q \<le> q_serial (pq_run sz q ops)
   \<and> q_serial (fst (pq_step sz q op)) = q_serial q + (if enqueues_flush sz q op then 1 else 0)
   \<and> q_serial (packet_queue_flush q) = q_serial q
   \<and> q_entries (packet_queue_flush q) = []"
  using pq_run_serial [of sz q ops] pq_step_serial [of sz q op]
  by (simp add: packet_queue_flush_def)

lemma wrap32_id: "- 2147483648 \<le> x \<Longrightarrow> x < 2147483648 \<Longrightarrow> wrap32 x = x"
  by (simp add: wrap32_def)

lemma wrap32_add_left: "wrap32 (wrap32 a + b) = wrap32 (a + b)"
proof -
  have "((a + 2147483648) mod 4294967296 + b) mod 4294967296
        = (a + 2147483648 + b) mod 4294967296"
    by (rule mod_add_left_eq)
  then show ?thesis by (simp add: wrap32_def algebra_simps)
qed

lemma wrap32_diff_left: "wrap32 (wrap32 a - b) = wrap32 (a - b)"
  using wrap32_add_left [of a "- b"] by simp

lemma wrap64_add_left: "wrap64 (wrap64 a + b) = wrap64 (a + b)"
proof -
  have "((a + 9223372036854775808) mod 18446744073709551616 + b) mod 18446744073709551616
        = (a + 9223372036854775808 + b) mod 18446744073709551616"
    by (rule mod_add_left_eq)
  then show ?thesis by (simp add: wrap64_def algebra_simps)
qed

lemma wrap64_diff_left: "wrap64 (wrap64 a - b) = wrap64 (a - b)"
  using wrap64_add_left [of a "- b"] by simp

lemma accounted_put_private:
  "accounted sz q \<Longrightarrow> accounted sz (fst (packet_queue_put_private sz a q p))"
  by (simp add: accounted_def packet_queue_put_private_def Let_def wrap32_add_left
      wrap64_add_left)

lemma accounted_get: "accounted sz q \<Longrightarrow> accounted sz (fst (packet_queue_get sz q b))"
  by (auto simp: accounted_def packet_queue_get_def wrap32_diff_left wrap64_diff_left
      split: list.split)

lemma accounted_flush: "accounted sz (packet_queue_flush q)"
  by (simp add: accounted_def packet_queue_flush_def wrap32_def wrap64_def)

lemma accounted_step: "accounted sz q \<Longrightarrow> accounted sz (fst (pq_step sz q op))"
proof (cases op)
  case (Op_start a)
  assume "accounted sz q"
  then have "accounted sz (q\<lparr>q_abort_request := 0\<rparr>)" by (simp add: accounted_def)
  then show ?thesis using Op_start
    by (simp add: packet_queue_start_def accounted_put_private)
qed (simp_all add: packet_queue_put_def packet_queue_put_nullpacket_def accounted_put_private
      accounted_get accounted_flush, simp add: packet_queue_abort_def accounted_def)

lemma accounted_run: "accounted sz q \<Longrightarrow> accounted sz (pq_run sz q ops)"
  by (induction ops arbitrary: q) (simp_all add: accounted_step)

lemma accounted_init: "accounted sz (fst (packet_queue_init m c))"
  by (simp add: accounted_def packet_queue_init_def zero_queue_def wrap32_def wrap64_def)

text \<open>
  C9 (as the source has it).  From a queue whose counters account for its entries (as
  the queue left by \<^verbatim>\<open>packet_queue_init\<close> does, by \<open>accounted_init\<close>), after any sequence
  of operations \<open>size\<close> is the sum over the queued entries of the payload size plus the
  per-entry overhead, reduced modulo 2^32 to the range of an \<^verbatim>\<open>int\<close>, hence the sum itself
  whenever the sum lies in that range; \<open>nb_packets\<close> is the number of entries; and a flush
  leaves no entry and sets \<open>size\<close>, \<open>nb_packets\<close> and \<open>duration\<close> to 0.
\<close>

theorem queue_size_accounting:
  assumes "accounted sz q"
  shows "q_size (pq_run sz q ops) =
           wrap32 (\<Sum>e\<leftarrow>q_entries (pq_run sz q ops). pkt_size (lpkt e) + sz)
       \<and> (if - 2147483648 \<le> (\<Sum>e\<leftarrow>q_entries (pq_run sz q ops). pkt_size (lpkt e) + sz)
              \<and> (\<Sum>e\<leftarrow>q_entries (pq_run sz q ops). pkt_size (lpkt e) + sz) < 2147483648
           then q_size (pq_run sz q ops) =
                  (\<Sum>e\<leftarrow>q_entries (pq_run sz q ops). pkt_size (lpkt e) + sz)
           else True)
       \<and> q_nb_packets (pq_run sz q ops) = int (length (q_entries (pq_run sz q ops)))
       \<and> q_entries (packet_queue_flush (pq_run sz q ops)) = []
       \<and> q_size (packet_queue_flush (pq_run sz q ops)) = 0
       \<and> q_nb_packets (packet_queue_flush (pq_run sz q ops)) = 0
       \<and> q_duration (packet_queue_flush (pq_run sz q ops)) = 0"
proof -
  have "accounted sz (pq_run sz q ops)" using assms by (rule accounted_run)
  then show ?thesis by (simp add: accounted_def packet_queue_flush_def wrap32_id)
qed

theorem queue_size_accounting_witness:
  "accounted 104 (packet_queue_start 104 True (fst (packet_queue_init True True)))
   \<and> q_size (pq_run 104 (packet_queue_start 104 True (fst (packet_queue_init True True)))
        [Op_put True (Pkt \<lparr>pkt_data = 7, pkt_size = 1000, pkt_duration = 40,
                           pkt_stream_index = 0\<rparr>),
         Op_put True Flush_pkt, Op_get 1, Op_put_null True 0]) = 1312
   \<and> q_nb_packets (pq_run 104 (packet_queue_start 104 True (fst (packet_queue_init True True)))
        [Op_put True (Pkt \<lparr>pkt_data = 7, pkt_size = 1000, pkt_duration = 40,
                           pkt_stream_index = 0\<rparr>),
         Op_put True Flush_pkt, Op_get 1, Op_put_null True 0]) = 3"
proof -
  have h: "accounted 104 (packet_queue_start 104 True (fst (packet_queue_init True True)))"
    by (simp add: accounted_def packet_queue_start_def packet_queue_init_def zero_queue_def
        packet_queue_put_private_def flush_pkt_def wrap32_def wrap64_def)
  show ?thesis
    using h queue_size_accounting [OF h, of
        "[Op_put True (Pkt \<lparr>pkt_data = 7, pkt_size = 1000, pkt_duration = 40,
                            pkt_stream_index = 0\<rparr>),
          Op_put True Flush_pkt, Op_get 1, Op_put_null True 0]"]
    by (simp add: packet_queue_start_def packet_queue_init_def zero_queue_def
        packet_queue_put_private_def packet_queue_put_def packet_queue_put_nullpacket_def
        packet_queue_get_def flush_pkt_def wrap32_def)
qed

text \<open>
  C9 as claimed fails: after start, a get of the flush marker and one put of a packet
  of 2147483647 bytes, the queue holds one entry of 2147483647 + 104 bytes while \<open>size\<close>
  is \<open>-2147483545\<close>.
\<close>

theorem queue_size_wraps:
  "q_entries (pq_run 104 (fst (packet_queue_init True True))
       [Op_start True, Op_get 1,
        Op_put True (Pkt \<lparr>pkt_data = 7, pkt_size = 2147483647, pkt_duration = 40,
                           pkt_stream_index = 0\<rparr>)])
     = [\<lparr>lpkt = \<lparr>pkt_data = 7, pkt_size = 2147483647, pkt_duration = 40,
                   pkt_stream_index = 0\<rparr>, lserial = 1\<rparr>]
   \<and> q_size (pq_run 104 (fst (packet_queue_init True True))
       [Op_start True, Op_get 1,
        Op_put True (Pkt \<lparr>pkt_data = 7, pkt_size = 2147483647, pkt_duration = 40,
                           pkt_stream_index = 0\<rparr>)]) = - 2147483545
   \<and> q_size (pq_run 104 (fst (packet_queue_init True True))
       [Op_start True, Op_get 1,
        Op_put True (Pkt \<lparr>pkt_data = 7, pkt_size = 2147483647, pkt_duration = 40,
                           pkt_stream_index = 0\<rparr>)])
     \<noteq> (\<Sum>e\<leftarrow>q_entries (pq_run 104 (fst (packet_queue_init True True))
            [Op_start True, Op_get 1,
             Op_put True (Pkt \<lparr>pkt_data = 7, pkt_size = 2147483647, pkt_duration = 40,
                                pkt_stream_index = 0\<rparr>)]). pkt_size (lpkt e) + 104)"
  by (simp add: packet_queue_start_def packet_queue_init_def zero_queue_def
      packet_queue_put_private_def packet_queue_put_def packet_queue_get_def flush_pkt_def
      wrap32_def)

lemma aborted_step:
  "q_entries q = [] \<Longrightarrow> q_nb_packets q = 0 \<Longrightarrow> q_size q = 0 \<Longrightarrow> q_duration q = 0
   \<Longrightarrow> q_abort_request q = 1 \<Longrightarrow> \<not> is_start op
   \<Longrightarrow> pq_step sz q op = (q, aborted_ret op)"
  by (cases op) (simp_all add: packet_queue_put_def packet_queue_put_nullpacket_def
      packet_queue_put_private_def packet_queue_get_def packet_queue_flush_def
      packet_queue_abort_def)

lemma aborted_run:
  "q_entries q = [] \<Longrightarrow> q_nb_packets q = 0 \<Longrightarrow> q_size q = 0 \<Longrightarrow> q_duration q = 0
   \<Longrightarrow> q_abort_request q = 1 \<Longrightarrow> list_all (\<lambda>op. \<not> is_start op) ops
   \<Longrightarrow> pq_run sz q ops = q \<and> pq_rets sz q ops = map aborted_ret ops"
proof (induction ops)
  case Nil
  show ?case by simp
next
  case (Cons op ops)
  then have "pq_step sz q op = (q, aborted_ret op)"
    using aborted_step [of q op sz] by simp
  then show ?case using Cons by simp
qed

text \<open>
  C10 (as the source has it).  \<^verbatim>\<open>packet_queue_init\<close>, when it succeeds, leaves the queue
  aborted: every put returns \<open>-1\<close> and every get returns the aborted outcome, and this
  stays so over any sequence of operations that contains no start (the queue does not
  even change).  \<^verbatim>\<open>packet_queue_start\<close> then clears \<open>abort_request\<close>; when its
  \<^verbatim>\<open>av_malloc\<close> succeeds it enqueues a flush marker, the serial is greater than at
  initialisation and the first packet a consumer gets is the flush marker stamped with
  that greater serial; when the allocation fails nothing is enqueued and the serial is
  the one of the initialisation.
\<close>

theorem fresh_queue_aborted_until_start:
  assumes "list_all (\<lambda>op. \<not> is_start op) ops"
  shows "snd (packet_queue_init True True) = 0
     \<and> q_abort_request (fst (packet_queue_init True True)) = 1
     \<and> snd (packet_queue_put sz a (fst (packet_queue_init True True)) p) = -1
     \<and> snd (packet_queue_get sz (fst (packet_queue_init True True)) b) = Get_aborted
     \<and> pq_run sz (fst (packet_queue_init True True)) ops = fst (packet_queue_init True True)
     \<and> pq_rets sz (fst (packet_queue_init True True)) ops = map aborted_ret ops
     \<and> q_abort_request
           (packet_queue_start sz alloc_ok (pq_run sz (fst (packet_queue_init True True)) ops))
         = 0
     \<and> (if alloc_ok then
           q_serial (fst (packet_queue_init True True))
             < q_serial (packet_queue_start sz alloc_ok
                 (pq_run sz (fst (packet_queue_init True True)) ops))
           \<and> snd (packet_queue_get sz
                 (packet_queue_start sz alloc_ok
                    (pq_run sz (fst (packet_queue_init True True)) ops)) b)
               = Get_packet flush_pkt (q_serial (fst (packet_queue_init True True)) + 1)
         else
           q_serial (packet_queue_start sz alloc_ok
                 (pq_run sz (fst (packet_queue_init True True)) ops))
             = q_serial (fst (packet_queue_init True True))
           \<and> q_entries (packet_queue_start sz alloc_ok
                 (pq_run sz (fst (packet_queue_init True True)) ops)) = [])"
proof -
  let ?q0 = "fst (packet_queue_init True True)"
  have q0: "?q0 = zero_queue\<lparr>q_abort_request := 1\<rparr>"
    by (simp add: packet_queue_init_def)
  have run: "pq_run sz ?q0 ops = ?q0 \<and> pq_rets sz ?q0 ops = map aborted_ret ops"
    using assms by (intro aborted_run) (simp_all add: q0 zero_queue_def)
  have 1: "snd (packet_queue_init True True) = 0"
    by (simp add: packet_queue_init_def)
  have 2: "q_abort_request ?q0 = 1" by (simp add: q0)
  have 3: "snd (packet_queue_put sz a ?q0 p) = -1"
    by (simp add: q0 packet_queue_put_def packet_queue_put_private_def)
  have 4: "snd (packet_queue_get sz ?q0 b) = Get_aborted"
    by (simp add: q0 packet_queue_get_def)
  have 5: "q_abort_request (packet_queue_start sz alloc_ok ?q0) = 0"
    by (simp add: q0 packet_queue_start_def packet_queue_put_private_def)
  have 6: "alloc_ok \<Longrightarrow> q_serial ?q0 < q_serial (packet_queue_start sz alloc_ok ?q0)"
    by (simp add: q0 packet_queue_start_def packet_queue_put_private_def)
  have 7: "alloc_ok \<Longrightarrow> snd (packet_queue_get sz (packet_queue_start sz alloc_ok ?q0) b)
         = Get_packet flush_pkt (q_serial ?q0 + 1)"
    by (simp add: q0 zero_queue_def packet_queue_start_def packet_queue_put_private_def
        packet_queue_get_def)
  have 8: "\<not> alloc_ok \<Longrightarrow> q_serial (packet_queue_start sz alloc_ok ?q0) = q_serial ?q0
      \<and> q_entries (packet_queue_start sz alloc_ok ?q0) = []"
    by (simp add: q0 zero_queue_def packet_queue_start_def packet_queue_put_private_def)
  show ?thesis using 1 2 3 4 5 6 7 8 run by simp
qed

theorem fresh_queue_aborted_until_start_witness:
  "list_all (\<lambda>op. \<not> is_start op)
     [Op_put True (Pkt \<lparr>pkt_data = 7, pkt_size = 1000, pkt_duration = 40,
                        pkt_stream_index = 0\<rparr>),
      Op_get 1, Op_put True Flush_pkt, Op_get 0, Op_flush]
   \<and> pq_rets 104 (fst (packet_queue_init True True))
     [Op_put True (Pkt \<lparr>pkt_data = 7, pkt_size = 1000, pkt_duration = 40,
                        pkt_stream_index = 0\<rparr>),
      Op_get 1, Op_put True Flush_pkt, Op_get 0, Op_flush]
     = [Ret_int (-1), Ret_get Get_aborted, Ret_int (-1), Ret_get Get_aborted, Ret_void]
   \<and> q_serial (packet_queue_start 104 True (pq_run 104 (fst (packet_queue_init True True))
     [Op_put True (Pkt \<lparr>pkt_data = 7, pkt_size = 1000, pkt_duration = 40,
                        pkt_stream_index = 0\<rparr>),
      Op_get 1, Op_put True Flush_pkt, Op_get 0, Op_flush])) = 1"
proof -
  have h: "list_all (\<lambda>op. \<not> is_start op)
     [Op_put True (Pkt \<lparr>pkt_data = 7, pkt_size = 1000, pkt_duration = 40,
                        pkt_stream_index = 0\<rparr>),
      Op_get 1, Op_put True Flush_pkt, Op_get 0, Op_flush]"
    by simp
  show ?thesis
    using h fresh_queue_aborted_until_start [OF h, of 104 _ _ _ True]
    by (simp add: packet_queue_init_def zero_queue_def packet_queue_start_def
        packet_queue_put_private_def)
qed

text \<open>
  C10 as claimed fails where it says that start enqueues a flush marker: when
  \<^verbatim>\<open>av_malloc\<close> fails in \<^verbatim>\<open>packet_queue_put_private\<close>, whose result \<^verbatim>\<open>packet_queue_start\<close>
  ignores, the fresh queue is no longer aborted, holds no entry and keeps the serial 0 of
  the initialisation.
\<close>

theorem start_without_flush_marker:
  "q_abort_request (packet_queue_start 104 False (fst (packet_queue_init True True))) = 0
   \<and> q_entries (packet_queue_start 104 False (fst (packet_queue_init True True))) = []
   \<and> q_serial (packet_queue_start 104 False (fst (packet_queue_init True True)))
       = q_serial (fst (packet_queue_init True True))
   \<and> \<not> q_serial (fst (packet_queue_init True True))
       < q_serial (packet_queue_start 104 False (fst (packet_queue_init True True)))"
  by (simp add: packet_queue_start_def packet_queue_init_def zero_queue_def
      packet_queue_put_private_def)

section \<open>Properties of the clocks and of the synchronisation\<close>

text \<open>
  C5 (as the source has it).  \<^verbatim>\<open>get_master_sync_type\<close> returns the configured preference
  when its stream is present; a VIDEO preference without a video stream gives AUDIO,
  whether or not an audio stream is present; an AUDIO preference without an audio stream
  gives EXTERNAL; any other preference gives EXTERNAL.
\<close>

theorem master_selection:
  "get_master_sync_type is =
     (if av_sync_type is = AV_SYNC_VIDEO_MASTER \<and> video_st is \<noteq> None
        then AV_SYNC_VIDEO_MASTER
      else if av_sync_type is = AV_SYNC_VIDEO_MASTER then AV_SYNC_AUDIO_MASTER
      else if av_sync_type is = AV_SYNC_AUDIO_MASTER \<and> audio_st is \<noteq> None
        then AV_SYNC_AUDIO_MASTER
      else AV_SYNC_EXTERNAL_CLOCK)"
  by (simp add: get_master_sync_type_def)

text \<open>
  C5 as claimed fails: with the VIDEO preference and neither a video nor an audio stream
  (the state that \<^verbatim>\<open>stream_open\<close> leaves before a stream is opened) the result is
  AUDIO, not EXTERNAL.
\<close>

theorem master_selection_video_no_streams:
  "av_sync_type (stream_open 1 0 0 0) = AV_SYNC_VIDEO_MASTER
   \<and> video_st (stream_open 1 0 0 0) = None \<and> audio_st (stream_open 1 0 0 0) = None
   \<and> get_master_sync_type (stream_open 1 0 0 0) = AV_SYNC_AUDIO_MASTER
   \<and> get_master_sync_type (stream_open 1 0 0 0) \<noteq> AV_SYNC_EXTERNAL_CLOCK"
  by (simp add: get_master_sync_type_def stream_open_def init_clock_def set_clock_def
      set_clock_at_def Let_def)

text \<open>
  C6 (as the source has it).  For two pictures of the same serial \<^verbatim>\<open>vp_duration\<close> is the
  difference of their timestamps when that difference is a number, positive and at most
  \<^verbatim>\<open>max_frame_duration\<close>, and the duration stored in the first picture otherwise; for
  two pictures of different serials it is 0.
\<close>

theorem vp_duration_cases:
  "vp_duration is lastvp vp =
     (if f_serial lastvp = f_serial vp then
        (case (f_pts vp, f_pts lastvp) of
           (Val b, Val a) \<Rightarrow>
             if 0 < b - a \<and> \<not> dgt (Val (b - a)) (max_frame_duration is) then Val (b - a)
             else f_duration lastvp
         | _ \<Rightarrow> f_duration lastvp)
      else Val 0)"
  by (cases "f_pts vp"; cases "f_pts lastvp") (auto simp add: vp_duration_def Let_def)

text \<open>
  C6 as claimed fails: between a picture of serial 1 and a picture of serial 2 the
  result is 0, not the duration 0.04 stored in the first picture.
\<close>

theorem vp_duration_serial_change:
  "f_serial (zero_frame\<lparr>f_serial := 1, f_pts := Val 4.0, f_duration := Val 0.04\<rparr>)
     \<noteq> f_serial (zero_frame\<lparr>f_serial := 2, f_pts := Val 10.0, f_duration := Val 0.04\<rparr>)
   \<and> vp_duration ((stream_open 0 0 0 0)\<lparr>max_frame_duration := Val 3600\<rparr>)
       (zero_frame\<lparr>f_serial := 1, f_pts := Val 4.0, f_duration := Val 0.04\<rparr>)
       (zero_frame\<lparr>f_serial := 2, f_pts := Val 10.0, f_duration := Val 0.04\<rparr>) = Val 0
   \<and> vp_duration ((stream_open 0 0 0 0)\<lparr>max_frame_duration := Val 3600\<rparr>)
       (zero_frame\<lparr>f_serial := 1, f_pts := Val 4.0, f_duration := Val 0.04\<rparr>)
       (zero_frame\<lparr>f_serial := 2, f_pts := Val 10.0, f_duration := Val 0.04\<rparr>)
     \<noteq> f_duration (zero_frame\<lparr>f_serial := 1, f_pts := Val 4.0, f_duration := Val 0.04\<rparr>)"
  by (simp add: vp_duration_def zero_frame_def)

lemma FFMAX_Val: "FFMAX (Val a) (Val b) = Val (max a b)"
  by (simp add: FFMAX_def dgt_def max_def)

lemma FFMIN_Val: "FFMIN (Val a) (Val b) = Val (min a b)"
  by (simp add: FFMIN_def dgt_def min_def)

text \<open>
  C3.  When video is the master \<^verbatim>\<open>compute_target_delay\<close> returns its argument.
  Otherwise, when the clock difference, the delay and \<^verbatim>\<open>max_frame_duration\<close> are numbers,
  the result is the one the specification's rule gives (\<open>spec_target_delay\<close>: threshold
  clamped to [0.04, 0.1]; behind gives \<open>max 0 (delay + diff)\<close>, ahead with a delay above
  0.1 gives \<open>delay + diff\<close>, ahead with a delay of at most 0.1 gives \<open>2 * delay\<close>, else
  unchanged); when one of them is NaN the delay is returned unchanged.
\<close>

theorem compute_target_delay_spec:
  "compute_target_delay delay is t1 t2 =
     (if get_master_sync_type is = AV_SYNC_VIDEO_MASTER then delay
      else case (dsub (get_clock is Ptr_vidclk t1) (get_master_clock is t2), delay,
                 max_frame_duration is) of
        (Val x, Val d, Val m) \<Rightarrow> Val (spec_target_delay d x m)
      | _ \<Rightarrow> delay)"
proof (cases "get_master_sync_type is = AV_SYNC_VIDEO_MASTER")
  case True
  then show ?thesis by (simp add: compute_target_delay_def)
next
  case False
  show ?thesis
  proof (cases "dsub (get_clock is Ptr_vidclk t1) (get_master_clock is t2)")
    case NaN
    then show ?thesis using False by (simp add: compute_target_delay_def)
  next
    case (Val x)
    note diff = this
    show ?thesis
    proof (cases delay)
      case NaN
      then show ?thesis using False diff
        by (cases "max_frame_duration is")
           (simp_all add: compute_target_delay_def FFMAX_def FFMIN_def dgt_def dge_def Let_def)
    next
      case (Val d)
      note delay = this
      show ?thesis
      proof (cases "max_frame_duration is")
        case NaN
        then show ?thesis using False diff delay by (simp add: compute_target_delay_def)
      next
        case (Val m)
        then show ?thesis using False diff delay
          by (auto simp add: compute_target_delay_def FFMAX_Val FFMIN_Val dgt_def dge_def
              Let_def spec_target_delay_def max_def min_def)
      qed
    qed
  qed
qed

text \<open>
  C7.  A clock read at the instant \<open>t\<close> at which it was set to \<open>p\<close> with serial \<open>s\<close>
  gives NaN when the queue serial it points to is not \<open>s\<close>, and otherwise \<open>p\<close>, both
  when paused and when running at a speed that is a number (in exact arithmetic; with a
  NaN speed the running clock reads NaN).  Any read is NaN when the queue serial differs
  from the clock's serial, the stored \<open>pts\<close> when paused, and
  \<open>pts_drift + now - (now - last_updated) * (1 - speed)\<close> when running.
\<close>

theorem clock_round_trip:
  "get_clock (set_clock is cp p s t) cp t =
     (if deref_int (set_clock is cp p s t) (c_queue_serial (the_clock is cp)) \<noteq> s then NaN
      else if c_paused (the_clock is cp) \<noteq> 0 then p
      else if isnan (c_speed (the_clock is cp)) then NaN
      else p)
   \<and> get_clock is cp t' =
     (if deref_int is (c_queue_serial (the_clock is cp)) \<noteq> c_serial (the_clock is cp) then NaN
      else if c_paused (the_clock is cp) \<noteq> 0 then c_pts (the_clock is cp)
      else dsub (dadd (c_pts_drift (the_clock is cp)) (Val t'))
                (dmul (dsub (Val t') (c_last_updated (the_clock is cp)))
                      (dsub (Val 1) (c_speed (the_clock is cp)))))"
proof -
  have clk: "the_clock (set_clock is cp p s t) cp =
      (the_clock is cp)\<lparr>c_pts := p, c_last_updated := Val t, c_pts_drift := dsub p (Val t),
                         c_serial := s\<rparr>"
    by (cases cp) (simp_all add: set_clock_def set_clock_at_def)
  have run: "dsub (dadd (dsub p (Val t)) (Val t)) (dmul (dsub (Val t) (Val t)) (dsub (Val 1) sp))
               = (if isnan sp then NaN else p)" for sp
    by (cases p; cases sp) simp_all
  have 1: "get_clock (set_clock is cp p s t) cp t =
     (if deref_int (set_clock is cp p s t) (c_queue_serial (the_clock is cp)) \<noteq> s then NaN
      else if c_paused (the_clock is cp) \<noteq> 0 then p
      else if isnan (c_speed (the_clock is cp)) then NaN
      else p)"
    unfolding get_clock_def [of "set_clock is cp p s t"] Let_def clk
    using run [of "c_speed (the_clock is cp)"] by simp
  have 2: "get_clock is cp t' =
     (if deref_int is (c_queue_serial (the_clock is cp)) \<noteq> c_serial (the_clock is cp) then NaN
      else if c_paused (the_clock is cp) \<noteq> 0 then c_pts (the_clock is cp)
      else dsub (dadd (c_pts_drift (the_clock is cp)) (Val t'))
                (dmul (dsub (Val t') (c_last_updated (the_clock is cp)))
                      (dsub (Val 1) (c_speed (the_clock is cp)))))"
    by (simp add: get_clock_def Let_def)
  show ?thesis using 1 2 by blast
qed

section \<open>Properties of the reader's backpressure\<close>





section \<open>Properties of the audio compensation\<close>

lemma sdiv_nonneg: "0 \<le> a \<Longrightarrow> 0 < b \<Longrightarrow> (a::int) sdiv b = a div b"
  by (simp add: signed_divide_int_def sgn_if)

lemma av_clip_bounds: "lo \<le> hi \<Longrightarrow> lo \<le> av_clip a lo hi \<and> av_clip a lo hi \<le> hi"
  by (simp add: av_clip_def)

lemma sync_result:
  "snd (synchronize_audio ub is nb t1 t2) = nb \<or>
   snd (synchronize_audio ub is nb t1 t2) =
     av_clip (wrap32 (nb + int_of_double ub
                        (dmul (dsub (get_clock is Ptr_audclk t1) (get_master_clock is t2))
                              (Val (real_of_int (audio_src_freq is))))))
        (wrap32 (nb * 90) sdiv 100) (wrap32 (nb * 110) sdiv 100)"
  by (simp add: synchronize_audio_def Let_def)

lemma div100_lower_aux: "(a::int) = q * 100 + r \<Longrightarrow> r < 100 \<Longrightarrow> a < (q + 1) * 100"
  by (simp add: algebra_simps)

lemma div100_upper_aux: "(a::int) = q * 100 + r \<Longrightarrow> 0 \<le> r \<Longrightarrow> q * 100 \<le> a"
  by linarith

lemma div100_lower: "(a::int) < (a div 100 + 1) * 100"
  by (rule div100_lower_aux [of a "a div 100" "a mod 100"]) simp_all

lemma div100_upper: "(a div 100) * 100 \<le> (a::int)"
  by (rule div100_upper_aux [of a "a div 100" "a mod 100"]) simp_all

lemma sync_bounds:
  assumes "0 \<le> nb" and "nb \<le> 19522578"
  shows "(nb * 90) div 100 \<le> snd (synchronize_audio ub is nb t1 t2)
       \<and> snd (synchronize_audio ub is nb t1 t2) \<le> (nb * 110) div 100
       \<and> 0.9 * real_of_int nb - 1 < real_of_int (snd (synchronize_audio ub is nb t1 t2))
       \<and> real_of_int (snd (synchronize_audio ub is nb t1 t2)) \<le> 1.1 * real_of_int nb"
proof -
  let ?w = "snd (synchronize_audio ub is nb t1 t2)"
  have w90: "wrap32 (nb * 90) = nb * 90" and w110: "wrap32 (nb * 110) = nb * 110"
    using assms by (simp_all add: wrap32_id)
  have lo: "(nb * 90) sdiv 100 = (nb * 90) div 100"
    and hi: "(nb * 110) sdiv 100 = (nb * 110) div 100"
    using assms by (simp_all add: sdiv_nonneg)
  have le: "(nb * 90) div 100 \<le> (nb * 110) div 100"
    using assms by (intro zdiv_mono1) simp_all
  have "(nb * 90) div 100 \<le> (nb * 100) div 100"
    using assms by (intro zdiv_mono1) simp_all
  then have nb1: "(nb * 90) div 100 \<le> nb" by simp
  have "(nb * 100) div 100 \<le> (nb * 110) div 100"
    using assms by (intro zdiv_mono1) simp_all
  then have nb2: "nb \<le> (nb * 110) div 100" by simp
  have b: "(nb * 90) div 100 \<le> ?w \<and> ?w \<le> (nb * 110) div 100"
    using sync_result [of ub "is" nb t1 t2] av_clip_bounds [OF le] nb1 nb2
    by (auto simp: lo hi w90 w110)
  have r1: "0.9 * real_of_int nb - 1 < real_of_int ((nb * 90) div 100)"
  proof -
    have "real_of_int (nb * 90) < real_of_int (((nb * 90) div 100 + 1) * 100)"
      using div100_lower [of "nb * 90"] by (simp only: of_int_less_iff)
    then show ?thesis by simp
  qed
  have r2: "real_of_int ((nb * 110) div 100) \<le> 1.1 * real_of_int nb"
  proof -
    have "real_of_int (((nb * 110) div 100) * 100) \<le> real_of_int (nb * 110)"
      using div100_upper [of "nb * 110"] by (simp only: of_int_le_iff)
    then show ?thesis by simp
  qed
  have "real_of_int ((nb * 90) div 100) \<le> real_of_int ?w" using b by simp
  moreover have "real_of_int ?w \<le> real_of_int ((nb * 110) div 100)" using b by simp
  ultimately show ?thesis using b r1 r2 by linarith
qed

lemma sync_exact:
  "snd (synchronize_audio ub is nb t1 t2) =
     (if get_master_sync_type is = AV_SYNC_AUDIO_MASTER then nb
      else case dsub (get_clock is Ptr_audclk t1) (get_master_clock is t2) of
        NaN \<Rightarrow> nb
      | Val x \<Rightarrow>
          if 10 \<le> \<bar>x\<bar> then nb
          else if audio_diff_avg_count is < 20 then nb
          else if \<not> dge (fabs (dmul (dadd (Val x) (dmul (audio_diff_avg_coef is) (audio_diff_cum is)))
                                   (dsub (Val 1) (audio_diff_avg_coef is))))
                          (audio_diff_threshold is) then nb
          else av_clip (wrap32 (nb + int_cast ub (x * real_of_int (audio_src_freq is))))
                 (wrap32 (nb * 90) sdiv 100) (wrap32 (nb * 110) sdiv 100))"
  by (cases "dsub (get_clock is Ptr_audclk t1) (get_master_clock is t2)")
     (auto simp add: synchronize_audio_def Let_def)

text \<open>
  C4 (as the source has it).  For a sample count \<open>nb\<close> with \<open>0 \<le> nb\<close> and
  \<open>nb * 110\<close> within the range of an \<^verbatim>\<open>int\<close> (\<open>nb \<le> 19522578\<close>) the result of
  \<^verbatim>\<open>synchronize_audio\<close> lies between \<open>nb * 90 / 100\<close> and \<open>nb * 110 / 100\<close> in integer
  division, hence above \<open>0.9 * nb - 1\<close> and at most \<open>1.1 * nb\<close>.  For every \<open>nb\<close> it is \<open>nb\<close>
  itself when audio is the master, when the clock difference is NaN or at least 10 s in
  absolute value, while fewer than 20 differences have been averaged, and when the
  averaged difference is not at least \<^verbatim>\<open>audio_diff_threshold\<close>; otherwise it is the
  clipped 32-bit sum.
\<close>

theorem compensation_bounds:
  assumes "0 \<le> nb" and "nb \<le> 19522578"
  shows "(nb * 90) div 100 \<le> snd (synchronize_audio ub is nb t1 t2)
       \<and> snd (synchronize_audio ub is nb t1 t2) \<le> (nb * 110) div 100
       \<and> 0.9 * real_of_int nb - 1 < real_of_int (snd (synchronize_audio ub is nb t1 t2))
       \<and> real_of_int (snd (synchronize_audio ub is nb t1 t2)) \<le> 1.1 * real_of_int nb
       \<and> snd (synchronize_audio ub is nb' t1 t2) =
          (if get_master_sync_type is = AV_SYNC_AUDIO_MASTER then nb'
           else case dsub (get_clock is Ptr_audclk t1) (get_master_clock is t2) of
             NaN \<Rightarrow> nb'
           | Val x \<Rightarrow>
               if 10 \<le> \<bar>x\<bar> then nb'
               else if audio_diff_avg_count is < 20 then nb'
               else if \<not> dge (fabs (dmul (dadd (Val x)
                                               (dmul (audio_diff_avg_coef is) (audio_diff_cum is)))
                                        (dsub (Val 1) (audio_diff_avg_coef is))))
                               (audio_diff_threshold is) then nb'
               else av_clip (wrap32 (nb' + int_cast ub (x * real_of_int (audio_src_freq is))))
                      (wrap32 (nb' * 90) sdiv 100) (wrap32 (nb' * 110) sdiv 100))"
  using sync_bounds [OF assms, of ub "is" t1 t2] sync_exact [of ub "is" nb' t1 t2] by blast

lemma state_audio_behind_result:
  "snd (synchronize_audio (- 2147483648) state_audio_behind 1024 5 5) = 921"
  by code_simp

lemma state_audio_behind_large:
  "snd (synchronize_audio (- 2147483648) state_audio_behind 20000000 5 5) = - 20949672"
  by code_simp

theorem compensation_bounds_witness:
  "(0::int) \<le> 1024 \<and> (1024::int) \<le> 19522578
   \<and> snd (synchronize_audio (- 2147483648) state_audio_behind 1024 5 5) = 921
   \<and> (1024 * 90) div 100 \<le> snd (synchronize_audio (- 2147483648) state_audio_behind 1024 5 5)
   \<and> 0.9 * real_of_int 1024 - 1
       < real_of_int (snd (synchronize_audio (- 2147483648) state_audio_behind 1024 5 5))"
proof -
  have h: "(0::int) \<le> 1024" and h': "(1024::int) \<le> 19522578" by simp_all
  show ?thesis
    using h h' compensation_bounds [OF h h', of "- 2147483648" state_audio_behind 5 5]
      state_audio_behind_result
    by simp
qed

text \<open>
  C4 as claimed fails twice.  For 1024 samples, with the audio clock one second behind
  the external master, the result is 921, below \<open>0.9 * 1024 = 921.6\<close>: the lower clamp
  is an integer quotient.  For 20000000 samples in the same state the product
  \<open>20000000 * 110\<close> leaves the range of an \<^verbatim>\<open>int\<close> and the result is \<open>-20949672\<close>.
\<close>

theorem compensation_below_nine_tenths:
  "(0::int) \<le> 1024
   \<and> snd (synchronize_audio (- 2147483648) state_audio_behind 1024 5 5) = 921
   \<and> real_of_int (snd (synchronize_audio (- 2147483648) state_audio_behind 1024 5 5))
       < 0.9 * real_of_int 1024
   \<and> (0::int) \<le> 20000000
   \<and> snd (synchronize_audio (- 2147483648) state_audio_behind 20000000 5 5) = - 20949672
   \<and> real_of_int (snd (synchronize_audio (- 2147483648) state_audio_behind 20000000 5 5))
       < 0.9 * real_of_int 20000000"
  by (simp add: state_audio_behind_result state_audio_behind_large)

section \<open>Properties of the consumers\<close>



































end
